theory Spec2Isabelle
  imports Complex_Main
begin

section \<open>JavaScript primitives used by the tag cloud\<close>

text \<open>
  A JavaScript string is a sequence of UTF-16 code units; it is modelled as the list of
  those units (numbers below 65536).
\<close>

type_synonym jsstring = "nat list"

definition isHighSurrogate :: "nat \<Rightarrow> bool" where
  "isHighSurrogate c = (55296 \<le> c \<and> c \<le> 56319)"

definition isLowSurrogate :: "nat \<Rightarrow> bool" where
  "isLowSurrogate c = (56320 \<le> c \<and> c \<le> 57343)"

definition hexDigit :: "nat \<Rightarrow> nat" where
  "hexDigit d = (if d < 10 then 48 + d else 87 + d)"

text \<open>The six-character escape \<^verbatim>\<open>\uXXXX\<close> with lowercase hexadecimal digits.\<close>

definition unicodeEscape :: "nat \<Rightarrow> jsstring" where
  "unicodeEscape c =
     [92, 117, hexDigit (c div 4096 mod 16), hexDigit (c div 256 mod 16),
      hexDigit (c div 16 mod 16), hexDigit (c mod 16)]"

text \<open>
  What \<^verbatim>\<open>JSON.stringify\<close> writes for one code unit that is not part of a surrogate
  pair: the short escapes for backspace, tab, line feed, form feed, carriage return, the
  double quote and the backslash; a \<^verbatim>\<open>\u\<close> escape for the other control characters and
  for a lone surrogate (as ECMAScript 2019 specifies); the unit itself otherwise.
\<close>

definition escapeUnit :: "nat \<Rightarrow> jsstring" where
  "escapeUnit c =
     (if c = 8 then [92, 98]
      else if c = 9 then [92, 116]
      else if c = 10 then [92, 110]
      else if c = 12 then [92, 102]
      else if c = 13 then [92, 114]
      else if c = 34 then [92, 34]
      else if c = 92 then [92, 92]
      else if c < 32 \<or> isHighSurrogate c \<or> isLowSurrogate c then unicodeEscape c
      else [c])"

fun quoteUnits :: "jsstring \<Rightarrow> jsstring" where
  "quoteUnits (c # l # cs) =
     (if isHighSurrogate c \<and> isLowSurrogate l then c # l # quoteUnits cs
      else escapeUnit c @ quoteUnits (l # cs))"
| "quoteUnits [c] = escapeUnit c"
| "quoteUnits [] = []"

text \<open>\<^verbatim>\<open>JSON.stringify(str)\<close> for a string: the escaped text between double quotes.\<close>

definition JSON_stringify :: "jsstring \<Rightarrow> jsstring" where
  "JSON_stringify str = 34 # quoteUnits str @ [34]"

text \<open>
  \<^verbatim>\<open>for (const ch of str)\<close> visits the string by code point, a surrogate pair being one
  step; \<^verbatim>\<open>ch.charCodeAt(0)\<close> is the first code unit of the step. \<open>charCodes\<close> lists these
  values in the order of the loop.
\<close>

fun charCodes :: "jsstring \<Rightarrow> nat list" where
  "charCodes (c # l # cs) =
     (if isHighSurrogate c \<and> isLowSurrogate l then c # charCodes cs
      else c # charCodes (l # cs))"
| "charCodes [c] = [c]"
| "charCodes [] = []"

text \<open>
  The remainder operator \<^verbatim>\<open>%\<close> on integers: the result takes the sign of the dividend.
  (For a zero divisor JavaScript yields NaN, which is outside this model; the tag cloud
  calls the hash with the divisors 2 and 12 only.)
\<close>

definition js_rem :: "int \<Rightarrow> int \<Rightarrow> int" where
  "js_rem a b = sgn a * (\<bar>a\<bar> mod \<bar>b\<bar>)"

text \<open>
  A JavaScript number where the code can meet one that is not finite: a finite number,
  either infinity, or NaN. Finite numbers are rationals with exact arithmetic (rounding and
  the sign of zero are outside this model); the operations below follow IEEE 754 for the
  special values.
\<close>

datatype jsnumber = Number rat | PosInf | NegInf | NaN







text \<open>The comparison \<^verbatim>\<open><=\<close>: false whenever an operand is NaN.\<close>

fun js_le :: "jsnumber \<Rightarrow> jsnumber \<Rightarrow> bool" where
  "js_le NaN y = False"
| "js_le x NaN = False"
| "js_le NegInf y = True"
| "js_le x PosInf = True"
| "js_le (Number a) (Number b) = (a \<le> b)"
| "js_le x y = False"


text \<open>\<^verbatim>\<open>Math.min\<close> and \<^verbatim>\<open>Math.max\<close> of two numbers: NaN when either is NaN.\<close>

definition Math_min :: "jsnumber \<Rightarrow> jsnumber \<Rightarrow> jsnumber" where
  "Math_min x y = (if x = NaN \<or> y = NaN then NaN else if js_le x y then x else y)"

definition Math_max :: "jsnumber \<Rightarrow> jsnumber \<Rightarrow> jsnumber" where
  "Math_max x y = (if x = NaN \<or> y = NaN then NaN else if js_le x y then y else x)"

text \<open>
  The conversion to a number of a property that may be absent: reading an absent property
  gives \<^verbatim>\<open>undefined\<close>, whose number is NaN.
\<close>

definition toNumber :: "jsnumber option \<Rightarrow> jsnumber" where
  "toNumber v = (case v of None \<Rightarrow> NaN | Some x \<Rightarrow> x)"

section \<open>Rotation of a word\<close>

definition hashWithinRange :: "jsstring \<Rightarrow> int \<Rightarrow> int" where
  "hashWithinRange str mx =
     js_rem \<bar>foldl (\<lambda>hash ch. js_rem (hash * 31 + int ch) mx) 0
               (charCodes (JSON_stringify str))\<bar> mx"

text \<open>
  The hash as the specification words it: fold the character codes with
  \<open>hash = (hash * 31 + code) mod max\<close> and return \<open>abs hash mod max\<close>, with the
  mathematical \<open>mod\<close>.
\<close>

definition hash_spec :: "nat list \<Rightarrow> int \<Rightarrow> int" where
  "hash_spec codes mx = \<bar>foldl (\<lambda>hash code. (hash * 31 + int code) mod mx) 0 codes\<bar> mod mx"


datatype orientation = Single | RightAngled | Multiple

typedecl meta

text \<open>
  A word of the cloud (\<^verbatim>\<open>TagType\<close>). The fields that the layout generator writes
  (\<^verbatim>\<open>text\<close>, \<^verbatim>\<open>x\<close>, \<^verbatim>\<open>y\<close>, \<^verbatim>\<open>rotate\<close>, \<^verbatim>\<open>size\<close>) are absent before a layout
  pass, and a copy made for a layout-preserving job has no \<^verbatim>\<open>value\<close> and no
  \<^verbatim>\<open>text\<close>: \<open>None\<close> is the absent (undefined) field.
\<close>

record tag =
  tag_rawText :: "jsstring option"
  tag_displayText :: jsstring
  tag_value :: "rat option"
  tag_meta :: "meta option"
  tag_text :: "jsstring option"
  tag_x :: "rat option"
  tag_y :: "rat option"
  tag_rotate :: "rat option"
  tag_size :: "rat option"

text \<open>
  The rotation callbacks. Iterating the serialization of an absent text raises a
  TypeError, which is the result \<open>None\<close>.
\<close>

fun ORIENTATIONS :: "orientation \<Rightarrow> tag \<Rightarrow> int option" where
  "ORIENTATIONS Single tg = Some 0"
| "ORIENTATIONS RightAngled tg =
     (case tag_text tg of None \<Rightarrow> None
      | Some str \<Rightarrow> Some (hashWithinRange str 2 * 90))"
| "ORIENTATIONS Multiple tg =
     (case tag_text tg of None \<Rightarrow> None
      | Some str \<Rightarrow> Some (hashWithinRange str 12 * 15 - 90))"

section \<open>Options, jobs and the state of a tag cloud\<close>

datatype scale_kind = Linear | Log | SquareRoot

text \<open>
  The payload of \<^verbatim>\<open>setOptions\<close> (declared \<^verbatim>\<open>Record<string, any>\<close>). The orientation
  and the scale are of the kinds that the class knows. A font size is a number, possibly
  NaN or infinite, or is absent from the object (\<open>None\<close>). A JavaScript object lists its
  properties in the order in which they were added, and \<^verbatim>\<open>JSON.stringify\<close> writes them
  in that order: \<open>opt_keys\<close> is the order in which the object lists the four keys.
\<close>

datatype optkey = Key_orientation | Key_minFontSize | Key_maxFontSize | Key_scale

record options =
  opt_orientation :: orientation
  opt_minFontSize :: "jsnumber option"
  opt_maxFontSize :: "jsnumber option"
  opt_scale :: scale_kind
  opt_keys :: "optkey list"

text \<open>
  The order of the properties: \<open>opt_keys\<close> when it is an arrangement of the four keys,
  and otherwise the order in which the fields are written above.
\<close>

definition propertyOrder :: "options \<Rightarrow> optkey list" where
  "propertyOrder opts =
     (if distinct (opt_keys opts) \<and>
         set (opt_keys opts) = {Key_orientation, Key_minFontSize, Key_maxFontSize, Key_scale}
      then opt_keys opts
      else [Key_orientation, Key_minFontSize, Key_maxFontSize, Key_scale])"

text \<open>
  What \<^verbatim>\<open>JSON.stringify\<close> writes for a value: a finite number as itself, NaN and the
  infinities as \<^verbatim>\<open>null\<close>; a property whose value is absent is not written.
\<close>

datatype json = JOrientation orientation | JScale scale_kind | JNumber rat | JNull

definition number_json :: "jsnumber \<Rightarrow> json" where
  "number_json x = (case x of Number a \<Rightarrow> JNumber a | _ \<Rightarrow> JNull)"

definition opt_member :: "options \<Rightarrow> optkey \<Rightarrow> json option" where
  "opt_member opts k =
     (case k of
        Key_orientation \<Rightarrow> Some (JOrientation (opt_orientation opts))
      | Key_minFontSize \<Rightarrow> map_option number_json (opt_minFontSize opts)
      | Key_maxFontSize \<Rightarrow> map_option number_json (opt_maxFontSize opts)
      | Key_scale \<Rightarrow> Some (JScale (opt_scale opts)))"

text \<open>
  The text \<^verbatim>\<open>JSON.stringify(options)\<close> is represented by the member list that it spells
  out: two payloads have the same text exactly when they write the same keys with the same
  values in the same order.
\<close>

type_synonym json_text = "(optkey \<times> json) list"

definition JSON_stringify_options :: "options \<Rightarrow> json_text" where
  "JSON_stringify_options opts =
     List.map_filter (\<lambda>k. map_option (Pair k) (opt_member opts k)) (propertyOrder opts)"

text \<open>Structural (deep) equality of two payloads: the same value under every key.\<close>

definition structurallyEqual :: "options \<Rightarrow> options \<Rightarrow> bool" where
  "structurallyEqual a b =
     (opt_orientation a = opt_orientation b \<and> opt_minFontSize a = opt_minFontSize b \<and>
      opt_maxFontSize a = opt_maxFontSize b \<and> opt_scale a = opt_scale b)"

record job =
  refreshLayout :: bool
  job_size :: "rat \<times> rat"
  job_words :: "tag list"

record bbox =
  bb_x :: rat
  bb_y :: rat
  bb_width :: rat
  bb_height :: rat

text \<open>
  \<^verbatim>\<open>_processPendingJob\<close> is an asynchronous function. \<open>pc\<close> is the place where its
  running instance is suspended: on the zero-delay timer of \<^verbatim>\<open>_pickPendingJob\<close>, on the
  end of the layout generator, or on the end of the transitions of \<^verbatim>\<open>_updateDOM\<close>.
\<close>

datatype pc = Idle | AwaitTimer | AwaitLayout job | AwaitDOM job

datatype emitted_event = RenderComplete

text \<open>
  The fields of the class, then what it reads from the page (the size of its element and
  the bounding box of the rendered group), the suspended instance, and a trace of what it
  did: the jobs the layout generator was started on and the events it emitted.
\<close>

record tagcloud =
  size_wh :: "rat \<times> rat"
  orientation :: orientation
  minFontSize :: jsnumber
  maxFontSize :: jsnumber
  textScale :: scale_kind
  optionsAsString :: "json_text option"
  words :: "tag list option"
  setTimeoutId :: bool
  pendingJob :: "job option"
  layoutIsUpdating :: "bool option"
  allInViewBox :: bool
  DOMisUpdating :: bool
  cloudWidth :: rat
  cloudHeight :: rat
  completedJob :: "job option"
  STATUS_COMPLETE :: int
  STATUS_INCOMPLETE :: int
  offsetWidth :: rat
  offsetHeight :: rat
  svgBBox :: bbox
  pc :: pc
  layoutStarted :: "job list"
  emitted :: "emitted_event list"

text \<open>
  The constructor, for an element of width \<open>w\<close> and height \<open>h\<close>. The field initialiser
  sets \<^verbatim>\<open>STATUS = { COMPLETE: 0, INCOMPLETE: 1 }\<close>; the call of \<^verbatim>\<open>resize\<close> in the
  constructor stores the size of the element and submits nothing, as there are no words
  yet; the last two statements assign 0 to both members of \<^verbatim>\<open>STATUS\<close>.
\<close>

definition constructor :: "rat \<Rightarrow> rat \<Rightarrow> tagcloud" where
  "constructor w h =
     (let this = \<lparr> size_wh = (w, h), orientation = Single, minFontSize = Number 10,
            maxFontSize = Number 36, textScale = Linear, optionsAsString = None, words = None,
            setTimeoutId = False, pendingJob = None, layoutIsUpdating = None,
            allInViewBox = False, DOMisUpdating = False, cloudWidth = 0, cloudHeight = 0,
            completedJob = None, STATUS_COMPLETE = 0, STATUS_INCOMPLETE = 1,
            offsetWidth = w, offsetHeight = h,
            svgBBox = \<lparr> bb_x = 0, bb_y = 0, bb_width = 0, bb_height = 0 \<rparr>,
            pc = Idle, layoutStarted = [], emitted = [] \<rparr>
      in this\<lparr> STATUS_COMPLETE := 0, STATUS_INCOMPLETE := 0 \<rparr>)"

definition getStatus :: "tagcloud \<Rightarrow> int" where
  "getStatus this = (if allInViewBox this then STATUS_COMPLETE this else STATUS_INCOMPLETE this)"

definition isJobRunning :: "tagcloud \<Rightarrow> bool" where
  "isJobRunning this =
     (setTimeoutId this \<or> layoutIsUpdating this = Some True \<or> DOMisUpdating this)"


section \<open>The size mapper\<close>











section \<open>The operations of the class\<close>

text \<open>
  An asynchronous function either returns within the running task or is suspended until
  an event of the page resumes it.
\<close>

datatype outcome = Returned | Suspended

definition pickPendingJob :: "tagcloud \<Rightarrow> tagcloud" where
  "pickPendingJob this = this\<lparr> setTimeoutId := True, pc := AwaitTimer \<rparr>"

text \<open>\<^verbatim>\<open>_processPendingJob\<close>, up to its first suspension.\<close>

definition processPendingJob :: "tagcloud \<Rightarrow> tagcloud" where
  "processPendingJob this =
     (if pendingJob this = None then this
      else if isJobRunning this then this
      else pickPendingJob (this\<lparr> completedJob := None \<rparr>))"

definition emptyDOM :: "tagcloud \<Rightarrow> tagcloud" where
  "emptyDOM this =
     this\<lparr> cloudWidth := 0, cloudHeight := 0, allInViewBox := True, DOMisUpdating := False \<rparr>"

text \<open>
  \<^verbatim>\<open>_updateLayout\<close>: for a size that is not positive it returns at once; otherwise it
  configures the generator, sets the busy flag and starts the generator on the job.
\<close>

definition updateLayout :: "job \<Rightarrow> tagcloud \<Rightarrow> outcome \<times> tagcloud" where
  "updateLayout jb this =
     (if fst (job_size jb) \<le> 0 \<or> snd (job_size jb) \<le> 0 then (Returned, this)
      else (Suspended,
            this\<lparr> layoutIsUpdating := Some True,
                  layoutStarted := layoutStarted this @ [jb] \<rparr>))"

definition updateDOM :: "job \<Rightarrow> tagcloud \<Rightarrow> outcome \<times> tagcloud" where
  "updateDOM jb this =
     (if pendingJob this \<noteq> None \<or> setTimeoutId this
      then (Returned, this\<lparr> DOMisUpdating := False \<rparr>)
      else (Suspended, this\<lparr> DOMisUpdating := True \<rparr>))"

text \<open>The measurement of the rendered group after \<^verbatim>\<open>_updateDOM\<close>.\<close>

definition measure_cloud :: "tagcloud \<Rightarrow> tagcloud" where
  "measure_cloud this =
     (let cloudBBox = svgBBox this
      in this\<lparr> cloudWidth := bb_width cloudBBox,
               cloudHeight := bb_height cloudBBox,
               allInViewBox :=
                 (bb_x cloudBBox \<ge> 0 \<and> bb_y cloudBBox \<ge> 0 \<and>
                  bb_x cloudBBox + bb_width cloudBBox \<le> offsetWidth this \<and>
                  bb_y cloudBBox + bb_height cloudBBox \<le> offsetHeight this) \<rparr>)"

text \<open>The end of \<^verbatim>\<open>_processPendingJob\<close>: pick up the next job, or complete.\<close>

definition finish :: "job \<Rightarrow> tagcloud \<Rightarrow> tagcloud" where
  "finish jb this =
     (if pendingJob this \<noteq> None then processPendingJob this
      else this\<lparr> completedJob := Some jb, emitted := emitted this @ [RenderComplete] \<rparr>)"

definition afterUpdateDOM :: "job \<Rightarrow> tagcloud \<Rightarrow> tagcloud" where
  "afterUpdateDOM jb this = finish jb (measure_cloud this)"

definition afterUpdateLayout :: "job \<Rightarrow> tagcloud \<Rightarrow> tagcloud" where
  "afterUpdateLayout jb this =
     (case updateDOM jb this of
        (Returned, this') \<Rightarrow> afterUpdateDOM jb this'
      | (Suspended, this') \<Rightarrow> this'\<lparr> pc := AwaitDOM jb \<rparr>)"

definition afterPick :: "job \<Rightarrow> tagcloud \<Rightarrow> tagcloud" where
  "afterPick jb this =
     (if job_words jb \<noteq> [] then
        (if refreshLayout jb then
           (case updateLayout jb this of
              (Returned, this') \<Rightarrow> afterUpdateLayout jb this'
            | (Suspended, this') \<Rightarrow> this'\<lparr> pc := AwaitLayout jb \<rparr>)
         else afterUpdateLayout jb this)
      else finish jb (emptyDOM this))"

definition makeNewJob :: "tag list \<Rightarrow> tagcloud \<Rightarrow> job" where
  "makeNewJob ws this = \<lparr> refreshLayout = True, job_size = size_wh this, job_words = ws \<rparr>"

text \<open>\<^verbatim>\<open>a || b\<close> on strings: \<open>a\<close> when it is present and not empty, \<open>b\<close> otherwise.\<close>

definition or_else :: "jsstring option \<Rightarrow> jsstring option \<Rightarrow> jsstring option" where
  "or_else a b = (case a of Some (c # cs) \<Rightarrow> a | _ \<Rightarrow> b)"

definition preserveTag :: "tag \<Rightarrow> tag" where
  "preserveTag tg =
     \<lparr> tag_rawText = or_else (tag_rawText tg) (tag_text tg),
       tag_displayText = tag_displayText tg,
       tag_value = None,
       tag_meta = tag_meta tg,
       tag_text = None,
       tag_x = tag_x tg,
       tag_y = tag_y tg,
       tag_rotate = tag_rotate tg,
       tag_size = tag_size tg \<rparr>"

definition makeJobPreservingLayout :: "tagcloud \<Rightarrow> job option" where
  "makeJobPreservingLayout this =
     (case completedJob this of
        None \<Rightarrow> None
      | Some cj \<Rightarrow>
          Some \<lparr> refreshLayout = False, job_size = size_wh this,
                 job_words = map preserveTag (job_words cj) \<rparr>)"

text \<open>
  \<^verbatim>\<open>_invalidate\<close>. The call of \<^verbatim>\<open>_updateContainerSize\<close> copies the stored size to
  attributes of the SVG elements, which nothing here reads; it is left out.
\<close>

definition invalidate :: "bool \<Rightarrow> tagcloud \<Rightarrow> tagcloud" where
  "invalidate keepLayout this =
     (case words this of
        None \<Rightarrow> this
      | Some ws \<Rightarrow>
          (let canReuseLayout =
                 (keepLayout \<and> \<not> isJobRunning this \<and> completedJob this \<noteq> None)
           in processPendingJob
                (this\<lparr> pendingJob :=
                         (if canReuseLayout then makeJobPreservingLayout this
                          else Some (makeNewJob ws this)) \<rparr>)))"

definition setOptions :: "options \<Rightarrow> tagcloud \<Rightarrow> tagcloud" where
  "setOptions opts this =
     (if Some (JSON_stringify_options opts) = optionsAsString this then this
      else invalidate False
             (this\<lparr> optionsAsString := Some (JSON_stringify_options opts),
                    orientation := opt_orientation opts,
                    minFontSize :=
                      Math_min (toNumber (opt_minFontSize opts)) (toNumber (opt_maxFontSize opts)),
                    maxFontSize :=
                      Math_max (toNumber (opt_minFontSize opts)) (toNumber (opt_maxFontSize opts)),
                    textScale := opt_scale opts \<rparr>))"

definition wasInside :: "tagcloud \<Rightarrow> bool" where
  "wasInside this =
     (fst (size_wh this) \<ge> cloudWidth this \<and> snd (size_wh this) \<ge> cloudHeight this)"

definition willBeInside :: "rat \<Rightarrow> rat \<Rightarrow> tagcloud \<Rightarrow> bool" where
  "willBeInside newWidth newHeight this =
     (cloudWidth this \<le> newWidth \<and> cloudHeight this \<le> newHeight)"

definition resize :: "tagcloud \<Rightarrow> tagcloud" where
  "resize this =
     (let newWidth = offsetWidth this; newHeight = offsetHeight this
      in if newWidth = fst (size_wh this) \<and> newHeight = snd (size_wh this) then this
         else (let inside = (wasInside this \<and> willBeInside newWidth newHeight this);
                   this' = this\<lparr> size_wh := (newWidth, newHeight) \<rparr>
               in if inside \<and> allInViewBox this' then invalidate True this'
                  else invalidate False this'))"

definition setData :: "tag list \<Rightarrow> tagcloud \<Rightarrow> tagcloud" where
  "setData data this = invalidate False (this\<lparr> words := Some data \<rparr>)"

section \<open>The event loop\<close>

text \<open>
  The calls of the host (\<open>SetData\<close>, \<open>SetOptions\<close>, \<open>Resize\<close>), the changes of the page
  that the class reads (\<open>ElementResized\<close>, \<open>SceneRendered\<close>), and the three events that
  resume the suspended instance. \<open>LayoutEnded ws\<close> carries the words of the job as the
  generator leaves them, with the placement fields it wrote (the generator writes into the
  word objects; the model updates the words of the job). An event that resumes an
  instance has no effect when no instance waits for it. The callback of the timer takes
  the pending job; were the slot empty there, reading the words of the job would raise a
  TypeError and the instance would end at that point.
\<close>

datatype event =
    SetData "tag list"
  | SetOptions options
  | Resize
  | ElementResized rat rat
  | SceneRendered bbox
  | TimerFired
  | LayoutEnded "tag list"
  | TransitionsEnded

definition timerFired :: "tagcloud \<Rightarrow> tagcloud" where
  "timerFired this =
     (case pc this of
        AwaitTimer \<Rightarrow>
          (let this' = this\<lparr> pendingJob := None, setTimeoutId := False, pc := Idle \<rparr>
           in case pendingJob this of
                Some jb \<Rightarrow> afterPick jb this'
              | None \<Rightarrow> this')
      | _ \<Rightarrow> this)"

definition layoutEnded :: "tag list \<Rightarrow> tagcloud \<Rightarrow> tagcloud" where
  "layoutEnded ws this =
     (case pc this of
        AwaitLayout jb \<Rightarrow>
          afterUpdateLayout (jb\<lparr> job_words := ws \<rparr>)
            (this\<lparr> layoutIsUpdating := Some False, pc := Idle \<rparr>)
      | _ \<Rightarrow> this)"

definition transitionsEnded :: "tagcloud \<Rightarrow> tagcloud" where
  "transitionsEnded this =
     (case pc this of
        AwaitDOM jb \<Rightarrow> afterUpdateDOM jb (this\<lparr> DOMisUpdating := False, pc := Idle \<rparr>)
      | _ \<Rightarrow> this)"

fun step :: "event \<Rightarrow> tagcloud \<Rightarrow> tagcloud" where
  "step (SetData data) this = setData data this"
| "step (SetOptions opts) this = setOptions opts this"
| "step Resize this = resize this"
| "step (ElementResized w h) this = this\<lparr> offsetWidth := w, offsetHeight := h \<rparr>"
| "step (SceneRendered b) this = this\<lparr> svgBBox := b \<rparr>"
| "step TimerFired this = timerFired this"
| "step (LayoutEnded ws) this = layoutEnded ws this"
| "step TransitionsEnded this = transitionsEnded this"

definition run :: "event list \<Rightarrow> tagcloud \<Rightarrow> tagcloud" where
  "run es this = foldl (\<lambda>s e. step e s) this es"


text \<open>
  Letting the page answer until the class is idle: the timer fires, the generator ends
  (leaving the words \<open>place jb\<close> for the job \<open>jb\<close>), the transitions end. The fuel
  bounds the number of answers; \<open>None\<close> means that the class is still busy when it is
  spent.
\<close>

definition nextInternal :: "(job \<Rightarrow> tag list) \<Rightarrow> tagcloud \<Rightarrow> event option" where
  "nextInternal place this =
     (case pc this of
        Idle \<Rightarrow> None
      | AwaitTimer \<Rightarrow> Some TimerFired
      | AwaitLayout jb \<Rightarrow> Some (LayoutEnded (place jb))
      | AwaitDOM jb \<Rightarrow> Some TransitionsEnded)"

fun settle :: "(job \<Rightarrow> tag list) \<Rightarrow> nat \<Rightarrow> tagcloud \<Rightarrow> tagcloud option" where
  "settle place 0 this = (if pc this = Idle then Some this else None)"
| "settle place (Suc n) this =
     (case nextInternal place this of
        None \<Rightarrow> Some this
      | Some e \<Rightarrow> settle place n (step e this))"

text \<open>
  The job that the pipeline is processing when an event resumes it: the pending job that
  the timer picks, the job of the layout pass with the words as the generator leaves
  them, the job whose transitions end. For any other event there is none.
\<close>

definition inFlight :: "event \<Rightarrow> tagcloud \<Rightarrow> job option" where
  "inFlight e this =
     (case (e, pc this) of
        (TimerFired, AwaitTimer) \<Rightarrow> pendingJob this
      | (LayoutEnded ws, AwaitLayout jb) \<Rightarrow> Some (jb\<lparr> job_words := ws \<rparr>)
      | (TransitionsEnded, AwaitDOM jb) \<Rightarrow> Some jb
      | _ \<Rightarrow> None)"

text \<open>
  The font sizes that a serialization determines: when it writes a finite number under
  both size keys, the stored sizes that come from it are the lesser and the greater of
  the two.
\<close>

definition sizesOfText :: "json_text \<Rightarrow> (jsnumber \<times> jsnumber) option" where
  "sizesOfText txt =
     (case (map_of txt Key_minFontSize, map_of txt Key_maxFontSize) of
        (Some (JNumber a), Some (JNumber b)) \<Rightarrow> Some (Number (min a b), Number (max a b))
      | _ \<Rightarrow> None)"

text \<open>
  The stored font sizes agree with the stored serialization: without one they are those of
  the constructor, and with one that determines the sizes they are the sizes it determines.
\<close>

definition sizesConsistent :: "json_text option \<Rightarrow> jsnumber \<Rightarrow> jsnumber \<Rightarrow> bool" where
  "sizesConsistent stored lo hi =
     (case stored of
        None \<Rightarrow> lo = Number 10 \<and> hi = Number 36
      | Some txt \<Rightarrow>
          (case sizesOfText txt of
             None \<Rightarrow> True
           | Some sizes \<Rightarrow> (lo, hi) = sizes))"

text \<open>
  The states that the scheduler can be in. A suspended instance holds the busy flag of the
  place where it waits and no other; nothing is pending or busy when no instance is
  suspended; the stored font sizes are those of the constructor or those that the stored
  serialization determines; the two status constants are as the constructor left them;
  the generator was only ever started on a positive size.
\<close>

definition scheduler_inv :: "tagcloud \<Rightarrow> bool" where
  "scheduler_inv this =
     ((case pc this of
         Idle \<Rightarrow> \<not> isJobRunning this \<and> pendingJob this = None
       | AwaitTimer \<Rightarrow>
           setTimeoutId this \<and> layoutIsUpdating this \<noteq> Some True \<and>
           \<not> DOMisUpdating this \<and> pendingJob this \<noteq> None \<and> completedJob this = None
       | AwaitLayout jb \<Rightarrow>
           \<not> setTimeoutId this \<and> layoutIsUpdating this = Some True \<and>
           \<not> DOMisUpdating this \<and> completedJob this = None
       | AwaitDOM jb \<Rightarrow>
           \<not> setTimeoutId this \<and> layoutIsUpdating this \<noteq> Some True \<and>
           DOMisUpdating this \<and> completedJob this = None)
      \<and> sizesConsistent (optionsAsString this) (minFontSize this) (maxFontSize this)
      \<and> STATUS_COMPLETE this = 0 \<and> STATUS_INCOMPLETE this = 0
      \<and> list_all (\<lambda>jb. 0 < fst (job_size jb) \<and> 0 < snd (job_size jb)) (layoutStarted this))"

section \<open>Example inputs\<close>

text \<open>A word with the given text and weight, as the host passes it (not yet placed).\<close>

definition example_tag :: "jsstring \<Rightarrow> rat \<Rightarrow> tag" where
  "example_tag str v =
     \<lparr> tag_rawText = Some str, tag_displayText = str, tag_value = Some v, tag_meta = None,
       tag_text = Some str, tag_x = None, tag_y = None, tag_rotate = None, tag_size = None \<rparr>"

text \<open>A payload with the given font sizes, listing its properties in the given order.\<close>

definition example_options :: "rat \<Rightarrow> rat \<Rightarrow> optkey list \<Rightarrow> options" where
  "example_options lo hi ks =
     \<lparr> opt_orientation = Single, opt_minFontSize = Some (Number lo),
       opt_maxFontSize = Some (Number hi), opt_scale = Linear, opt_keys = ks \<rparr>"

text \<open>A word as the layout generator leaves it, placed at \<open>(x, y)\<close>.\<close>

definition placed_tag :: "jsstring \<Rightarrow> rat \<Rightarrow> rat \<Rightarrow> rat \<Rightarrow> tag" where
  "placed_tag str v x y =
     \<lparr> tag_rawText = Some str, tag_displayText = str, tag_value = Some v, tag_meta = None,
       tag_text = Some str, tag_x = Some x, tag_y = Some y, tag_rotate = Some 0,
       tag_size = Some 36 \<rparr>"

section \<open>The invariant of the scheduler\<close>

lemmas pipeline_defs = processPendingJob_def pickPendingJob_def isJobRunning_def emptyDOM_def
  updateLayout_def updateDOM_def measure_cloud_def finish_def afterUpdateDOM_def
  afterUpdateLayout_def afterPick_def

lemma inv_constructor: "scheduler_inv (constructor w h)"
  by (simp add: scheduler_inv_def constructor_def isJobRunning_def sizesConsistent_def)

lemma inv_invalidate: "scheduler_inv s \<Longrightarrow> scheduler_inv (invalidate k s)"
  by (auto simp: scheduler_inv_def invalidate_def makeJobPreservingLayout_def makeNewJob_def
        Let_def pipeline_defs split: pc.splits option.splits if_splits)

lemma inv_words_update: "scheduler_inv s \<Longrightarrow> scheduler_inv (s\<lparr> words := a \<rparr>)"
  by (simp add: scheduler_inv_def isJobRunning_def split: pc.splits)

lemma inv_setData: "scheduler_inv s \<Longrightarrow> scheduler_inv (setData d s)"
  unfolding setData_def by (simp add: inv_invalidate inv_words_update)

lemma map_of_map_filter_None:
  "f k = None \<Longrightarrow> map_of (List.map_filter (\<lambda>k. map_option (Pair k) (f k)) ks) k = None"
  by (induction ks) (auto split: option.splits)

lemma map_of_map_filter:
  "k \<in> set ks \<Longrightarrow> map_of (List.map_filter (\<lambda>k. map_option (Pair k) (f k)) ks) k = f k"
proof (induction ks)
  case Nil
  then show ?case by simp
next
  case (Cons x ks)
  show ?case
  proof (cases "f x")
    case None
    with Cons map_of_map_filter_None [of f k ks] show ?thesis
      by (cases "x = k") auto
  next
    case (Some v)
    with Cons show ?thesis
      by (cases "x = k") auto
  qed
qed

lemma propertyOrder_all: "k \<in> set (propertyOrder opts)"
  by (cases k) (auto simp: propertyOrder_def)

lemma map_of_stringify: "map_of (JSON_stringify_options opts) k = opt_member opts k"
  unfolding JSON_stringify_options_def
  by (rule map_of_map_filter) (rule propertyOrder_all)

lemma Math_min_max_Number:
  "Math_min (Number a) (Number b) = Number (min a b)"
  "Math_max (Number a) (Number b) = Number (max a b)"
  by (simp_all add: Math_min_def Math_max_def min_def max_def)

lemma sizesOfText_stringify:
  assumes "sizesOfText (JSON_stringify_options opts) = Some sizes"
  shows "(Math_min (toNumber (opt_minFontSize opts)) (toNumber (opt_maxFontSize opts)),
          Math_max (toNumber (opt_minFontSize opts)) (toNumber (opt_maxFontSize opts))) = sizes"
  using assms
  by (auto simp: sizesOfText_def map_of_stringify opt_member_def number_json_def toNumber_def
        Math_min_max_Number split: option.splits json.splits jsnumber.splits)

lemma inv_options_update:
  "scheduler_inv s \<Longrightarrow>
   scheduler_inv
     (s\<lparr> optionsAsString := Some (JSON_stringify_options opts), orientation := b,
         minFontSize := Math_min (toNumber (opt_minFontSize opts)) (toNumber (opt_maxFontSize opts)),
         maxFontSize := Math_max (toNumber (opt_minFontSize opts)) (toNumber (opt_maxFontSize opts)),
         textScale := c \<rparr>)"
  using sizesOfText_stringify [of opts]
  by (auto simp: scheduler_inv_def isJobRunning_def sizesConsistent_def
        split: pc.splits option.splits)

lemma inv_setOptions: "scheduler_inv s \<Longrightarrow> scheduler_inv (setOptions opts s)"
  unfolding setOptions_def by (simp add: inv_invalidate inv_options_update)

lemma inv_size_update: "scheduler_inv s \<Longrightarrow> scheduler_inv (s\<lparr> size_wh := a \<rparr>)"
  by (simp add: scheduler_inv_def isJobRunning_def split: pc.splits)

lemma inv_resize: "scheduler_inv s \<Longrightarrow> scheduler_inv (resize s)"
  unfolding resize_def Let_def by (simp add: inv_invalidate inv_size_update)

lemma inv_timerFired: "scheduler_inv s \<Longrightarrow> scheduler_inv (timerFired s)"
  by (auto simp: scheduler_inv_def timerFired_def Let_def pipeline_defs
        split: pc.splits option.splits if_splits)

lemma inv_layoutEnded: "scheduler_inv s \<Longrightarrow> scheduler_inv (layoutEnded ws s)"
  by (auto simp: scheduler_inv_def layoutEnded_def Let_def pipeline_defs
        split: pc.splits option.splits if_splits)

lemma inv_transitionsEnded: "scheduler_inv s \<Longrightarrow> scheduler_inv (transitionsEnded s)"
  by (auto simp: scheduler_inv_def transitionsEnded_def Let_def pipeline_defs
        split: pc.splits option.splits if_splits)

lemma inv_page_update:
  "scheduler_inv s \<Longrightarrow> scheduler_inv (s\<lparr> offsetWidth := a, offsetHeight := b \<rparr>)"
  "scheduler_inv s \<Longrightarrow> scheduler_inv (s\<lparr> svgBBox := c \<rparr>)"
  by (simp_all add: scheduler_inv_def isJobRunning_def split: pc.splits)

lemma inv_step: "scheduler_inv s \<Longrightarrow> scheduler_inv (step e s)"
  by (cases e)
     (simp_all add: inv_setData inv_setOptions inv_resize inv_timerFired inv_layoutEnded
        inv_transitionsEnded inv_page_update)

lemma inv_run: "scheduler_inv s \<Longrightarrow> scheduler_inv (run es s)"
  unfolding run_def by (induction es arbitrary: s) (simp_all add: inv_step)

lemma inv_reachable: "scheduler_inv (run es (constructor w h))"
  by (simp add: inv_run inv_constructor)

section \<open>Helper facts\<close>

lemmas op_defs = setData_def setOptions_def resize_def invalidate_def makeNewJob_def
  makeJobPreservingLayout_def timerFired_def layoutEnded_def transitionsEnded_def run_def

lemmas example_defs = example_tag_def constructor_def

lemma invalidate_frame:
  "minFontSize (invalidate k s) = minFontSize s"
  "maxFontSize (invalidate k s) = maxFontSize s"
  "optionsAsString (invalidate k s) = optionsAsString s"
  "orientation (invalidate k s) = orientation s"
  "textScale (invalidate k s) = textScale s"
  "words (invalidate k s) = words s"
  "size_wh (invalidate k s) = size_wh s"
  "layoutStarted (invalidate k s) = layoutStarted s"
  "emitted (invalidate k s) = emitted s"
  by (simp_all add: invalidate_def processPendingJob_def pickPendingJob_def Let_def
        split: option.splits)

lemma js_rem_nonneg: "0 \<le> a \<Longrightarrow> 0 < b \<Longrightarrow> js_rem a b = a mod b"
  by (cases "a = 0") (simp_all add: js_rem_def)

lemma fold_js_rem:
  "0 \<le> h \<Longrightarrow> 0 < mx \<Longrightarrow>
   foldl (\<lambda>hash ch. js_rem (hash * 31 + int ch) mx) h cs =
     foldl (\<lambda>hash code. (hash * 31 + int code) mod mx) h cs \<and>
   0 \<le> foldl (\<lambda>hash code. (hash * 31 + int code) mod mx) h cs"
proof (induction cs arbitrary: h)
  case Nil
  then show ?case by simp
next
  case (Cons c cs)
  from Cons.prems have nn: "0 \<le> h * 31 + int c" by simp
  with Cons.prems have eq: "js_rem (h * 31 + int c) mx = (h * 31 + int c) mod mx"
    by (simp add: js_rem_nonneg)
  from Cons.prems have "0 \<le> (h * 31 + int c) mod mx" by simp
  from Cons.IH [OF this Cons.prems(2)] eq show ?case by simp
qed

lemma hashWithinRange_spec:
  assumes "0 < mx"
  shows "hashWithinRange str mx = hash_spec (charCodes (JSON_stringify str)) mx"
proof -
  have f: "foldl (\<lambda>hash ch. js_rem (hash * 31 + int ch) mx) 0 (charCodes (JSON_stringify str)) =
      foldl (\<lambda>hash code. (hash * 31 + int code) mod mx) 0 (charCodes (JSON_stringify str))"
    using fold_js_rem [of 0 mx] assms by simp
  show ?thesis
    unfolding hashWithinRange_def hash_spec_def f
    using assms by (simp add: js_rem_nonneg)
qed

lemma hash_spec_range: "0 < mx \<Longrightarrow> 0 \<le> hash_spec cs mx \<and> hash_spec cs mx < mx"
  by (simp add: hash_spec_def)

lemma opt_member_structurallyEqual:
  "structurallyEqual a b \<Longrightarrow> opt_member a = opt_member b"
  by (auto simp: structurallyEqual_def opt_member_def fun_eq_iff split: optkey.splits)

lemma stringify_structurallyEqual:
  "structurallyEqual a b \<Longrightarrow> propertyOrder a = propertyOrder b \<Longrightarrow>
   JSON_stringify_options a = JSON_stringify_options b"
  by (simp add: JSON_stringify_options_def opt_member_structurallyEqual)

lemma map_fst_map_filter:
  "\<forall>k \<in> set ks. f k \<noteq> None \<Longrightarrow>
   map fst (List.map_filter (\<lambda>k. map_option (Pair k) (f k)) ks) = ks"
  by (induction ks) (auto split: option.splits)

lemma stringify_keys:
  "opt_minFontSize a \<noteq> None \<Longrightarrow> opt_maxFontSize a \<noteq> None \<Longrightarrow>
   map fst (JSON_stringify_options a) = propertyOrder a"
  unfolding JSON_stringify_options_def
  by (rule map_fst_map_filter) (auto simp: opt_member_def split: optkey.splits)

lemma invalidate_pendingJob:
  "words s = Some ws \<Longrightarrow> pendingJob (invalidate False s) = Some (makeNewJob ws s)"
  by (simp add: invalidate_def processPendingJob_def pickPendingJob_def)

lemma setOptions_optionsAsString:
  "optionsAsString (setOptions opts this) = Some (JSON_stringify_options opts)"
  by (simp add: setOptions_def invalidate_frame)

lemma preserveTag_placement:
  "tag_x (preserveTag tg) = tag_x tg" "tag_y (preserveTag tg) = tag_y tg"
  "tag_rotate (preserveTag tg) = tag_rotate tg" "tag_size (preserveTag tg) = tag_size tg"
  "tag_displayText (preserveTag tg) = tag_displayText tg"
  by (simp_all add: preserveTag_def)

lemma invalidate_completedJob:
  "completedJob (invalidate k s) = completedJob s \<or>
   completedJob (invalidate k s) = None"
  by (simp add: invalidate_def processPendingJob_def pickPendingJob_def Let_def
        split: option.splits)

lemma finish_completedJob:
  "completedJob (finish jb s) = None \<or>
   (completedJob (finish jb s) = Some jb \<and> emitted (finish jb s) = emitted s @ [RenderComplete]) \<or>
   (completedJob (finish jb s) = completedJob s \<and> emitted (finish jb s) = emitted s)"
  by (simp add: finish_def processPendingJob_def pickPendingJob_def)

lemma afterUpdateDOM_completedJob:
  "completedJob (afterUpdateDOM jb s) = None \<or>
   (completedJob (afterUpdateDOM jb s) = Some jb \<and>
    emitted (afterUpdateDOM jb s) = emitted s @ [RenderComplete]) \<or>
   (completedJob (afterUpdateDOM jb s) = completedJob s \<and>
    emitted (afterUpdateDOM jb s) = emitted s)"
  using finish_completedJob [of jb "measure_cloud s"]
  by (simp add: afterUpdateDOM_def measure_cloud_def Let_def)

lemma afterUpdateLayout_completedJob:
  "completedJob (afterUpdateLayout jb s) = None \<or>
   (completedJob (afterUpdateLayout jb s) = Some jb \<and>
    emitted (afterUpdateLayout jb s) = emitted s @ [RenderComplete]) \<or>
   (completedJob (afterUpdateLayout jb s) = completedJob s \<and>
    emitted (afterUpdateLayout jb s) = emitted s)"
  using afterUpdateDOM_completedJob [of jb "s\<lparr> DOMisUpdating := False \<rparr>"]
  by (simp add: afterUpdateLayout_def updateDOM_def)

lemma afterPick_completedJob:
  "completedJob (afterPick jb s) = None \<or>
   (completedJob (afterPick jb s) = Some jb \<and>
    emitted (afterPick jb s) = emitted s @ [RenderComplete]) \<or>
   (completedJob (afterPick jb s) = completedJob s \<and>
    emitted (afterPick jb s) = emitted s)"
  using afterUpdateLayout_completedJob [of jb s] finish_completedJob [of jb "emptyDOM s"]
  by (simp add: afterPick_def updateLayout_def emptyDOM_def)

lemma step_completedJob:
  "completedJob (step e s) = completedJob s \<or> completedJob (step e s) = None \<or>
   (completedJob (step e s) = inFlight e s \<and>
    emitted (step e s) = emitted s @ [RenderComplete])"
proof (cases e)
  case (SetData d)
  then show ?thesis
    using invalidate_completedJob [of False "s\<lparr> words := Some d \<rparr>"]
    by (auto simp: setData_def)
next
  case (SetOptions opts)
  then show ?thesis
    using invalidate_completedJob [of False
        "s\<lparr> optionsAsString := Some (JSON_stringify_options opts),
            orientation := opt_orientation opts,
            minFontSize :=
              Math_min (toNumber (opt_minFontSize opts)) (toNumber (opt_maxFontSize opts)),
            maxFontSize :=
              Math_max (toNumber (opt_minFontSize opts)) (toNumber (opt_maxFontSize opts)),
            textScale := opt_scale opts \<rparr>"]
    by (auto simp: setOptions_def)
next
  case Resize
  then show ?thesis
    using invalidate_completedJob [of True "s\<lparr> size_wh := (offsetWidth s, offsetHeight s) \<rparr>"]
      invalidate_completedJob [of False "s\<lparr> size_wh := (offsetWidth s, offsetHeight s) \<rparr>"]
    by (auto simp: resize_def Let_def)
next
  case (ElementResized w h)
  then show ?thesis by simp
next
  case (SceneRendered b)
  then show ?thesis by simp
next
  case TimerFired
  show ?thesis
  proof (cases "pc s = AwaitTimer \<and> pendingJob s \<noteq> None")
    case True
    then obtain jb where jb: "pendingJob s = Some jb" by auto
    from True jb TimerFired show ?thesis
      using afterPick_completedJob
        [of jb "s\<lparr> pendingJob := None, setTimeoutId := False, pc := Idle \<rparr>"]
      by (auto simp: timerFired_def Let_def inFlight_def)
  next
    case False
    with TimerFired show ?thesis
      by (auto simp: timerFired_def Let_def split: pc.splits option.splits)
  qed
next
  case (LayoutEnded ws)
  show ?thesis
  proof (cases "pc s")
    case (AwaitLayout jb)
    with LayoutEnded show ?thesis
      using afterUpdateLayout_completedJob
        [of "jb\<lparr> job_words := ws \<rparr>" "s\<lparr> layoutIsUpdating := Some False, pc := Idle \<rparr>"]
      by (auto simp: layoutEnded_def inFlight_def)
  qed (use LayoutEnded in \<open>simp_all add: layoutEnded_def\<close>)
next
  case TransitionsEnded
  show ?thesis
  proof (cases "pc s")
    case (AwaitDOM jb)
    with TransitionsEnded show ?thesis
      using afterUpdateDOM_completedJob [of jb "s\<lparr> DOMisUpdating := False, pc := Idle \<rparr>"]
      by (auto simp: transitionsEnded_def inFlight_def)
  qed (use TransitionsEnded in \<open>simp_all add: transitionsEnded_def\<close>)
qed

lemma run_snoc: "run (es @ [e]) s = step e (run es s)"
  by (simp add: run_def)

lemma inv_busy_completedJob:
  "scheduler_inv s \<Longrightarrow> pc s \<noteq> Idle \<or> isJobRunning s \<Longrightarrow> completedJob s = None"
  by (auto simp: scheduler_inv_def isJobRunning_def split: pc.splits)

lemma inv_completed_idle:
  "scheduler_inv s \<Longrightarrow> completedJob s \<noteq> None \<Longrightarrow>
   pc s = Idle \<and> \<not> isJobRunning s \<and> pendingJob s = None"
  by (auto simp: scheduler_inv_def isJobRunning_def split: pc.splits)

lemma three_setData_state:
  assumes "pc this = Idle" and "\<not> isJobRunning this"
  shows "run [SetData A, SetData B, SetData C] this =
     this\<lparr> words := Some C,
           pendingJob := Some \<lparr> refreshLayout = True, job_size = size_wh this, job_words = C \<rparr>,
           completedJob := None, setTimeoutId := True, pc := AwaitTimer \<rparr>"
  using assms
  by (simp add: run_def setData_def invalidate_def makeNewJob_def processPendingJob_def
        pickPendingJob_def isJobRunning_def Let_def)

lemma propertyOrder_examples:
  "opt_keys opts = [Key_orientation, Key_minFontSize, Key_maxFontSize, Key_scale] \<Longrightarrow>
   propertyOrder opts = [Key_orientation, Key_minFontSize, Key_maxFontSize, Key_scale]"
  "opt_keys opts = [Key_minFontSize, Key_orientation, Key_maxFontSize, Key_scale] \<Longrightarrow>
   propertyOrder opts = [Key_minFontSize, Key_orientation, Key_maxFontSize, Key_scale]"
  by (auto simp: propertyOrder_def)

lemma setOptions_frame:
  "words (setOptions opts s) = words s" "size_wh (setOptions opts s) = size_wh s"
  by (simp_all add: setOptions_def invalidate_frame)

section \<open>Claims\<close>

text \<open>
  Claim C5. For a job whose width or height is not positive, \<^verbatim>\<open>_updateLayout\<close> returns
  at once with the state unchanged and the generator not started; when the timer hands
  such a job to the pipeline, no layout pass is recorded and the pipeline does not wait
  for the generator; and in no run of the class is the generator ever started on such a
  job.
\<close>

theorem updateLayout_skips_nonpositive_size:
  assumes "fst (job_size jb) \<le> 0 \<or> snd (job_size jb) \<le> 0"
  shows "updateLayout jb this = (Returned, this) \<and>
    (pc this = AwaitTimer \<and> pendingJob this = Some jb \<longrightarrow>
       layoutStarted (timerFired this) = layoutStarted this \<and>
       pc (timerFired this) \<noteq> AwaitLayout jb') \<and>
    jb \<notin> set (layoutStarted (run es (constructor w h)))"
proof -
  have a: "updateLayout jb this = (Returned, this)"
    using assms by (auto simp: updateLayout_def)
  have b: "layoutStarted (timerFired this) = layoutStarted this \<and>
       pc (timerFired this) \<noteq> AwaitLayout jb'"
    if "pc this = AwaitTimer" "pendingJob this = Some jb"
    using that assms
    by (auto simp: timerFired_def Let_def pipeline_defs split: if_splits)
  have "scheduler_inv (run es (constructor w h))"
    by (rule inv_reachable)
  then have "list_all (\<lambda>j. 0 < fst (job_size j) \<and> 0 < snd (job_size j))
      (layoutStarted (run es (constructor w h)))"
    by (simp add: scheduler_inv_def)
  then have c: "jb \<notin> set (layoutStarted (run es (constructor w h)))"
    using assms by (auto simp: list_all_iff)
  from a b c show ?thesis by blast
qed

theorem updateLayout_skips_nonpositive_size_witness:
  "fst (job_size \<lparr> refreshLayout = True, job_size = (0, 300),
                   job_words = [example_tag [102, 111, 111] 5] \<rparr>) \<le> 0 \<and>
   pc (run [SetData [example_tag [102, 111, 111] 5]] (constructor 0 300)) = AwaitTimer \<and>
   pendingJob (run [SetData [example_tag [102, 111, 111] 5]] (constructor 0 300)) =
     Some \<lparr> refreshLayout = True, job_size = (0, 300),
            job_words = [example_tag [102, 111, 111] 5] \<rparr> \<and>
   layoutStarted (timerFired (run [SetData [example_tag [102, 111, 111] 5]] (constructor 0 300))) = [] \<and>
   pc (timerFired (run [SetData [example_tag [102, 111, 111] 5]] (constructor 0 300))) =
     AwaitDOM \<lparr> refreshLayout = True, job_size = (0, 300),
            job_words = [example_tag [102, 111, 111] 5] \<rparr>"
  using updateLayout_skips_nonpositive_size
    [of "\<lparr> refreshLayout = True, job_size = (0, 300),
            job_words = [example_tag [102, 111, 111] 5] \<rparr>"
        "run [SetData [example_tag [102, 111, 111] 5]] (constructor 0 300)"]
  by (simp add: op_defs example_defs pipeline_defs Let_def)

text \<open>
  Claim C1. \<^verbatim>\<open>getStatus\<close> should return the COMPLETE value when the last measurement
  found the cloud inside the viewport and the INCOMPLETE value otherwise, the two being
  distinct. In every state that the class reaches, the two constants are both 0, as the
  constructor assigned them, and \<^verbatim>\<open>getStatus\<close> returns 0 whatever the measurement found;
  right after construction the cloud is not contained and the result is the COMPLETE
  value.
\<close>

theorem getStatus_statuses_coincide:
  "STATUS_COMPLETE (run es (constructor w h)) = 0 \<and>
   STATUS_INCOMPLETE (run es (constructor w h)) = 0 \<and>
   getStatus (run es (constructor w h)) = 0 \<and>
   \<not> allInViewBox (constructor w h) \<and>
   getStatus (constructor w h) = STATUS_COMPLETE (constructor w h)"
proof -
  have "scheduler_inv (run es (constructor w h))"
    by (rule inv_reachable)
  then have "STATUS_COMPLETE (run es (constructor w h)) = 0"
    and "STATUS_INCOMPLETE (run es (constructor w h)) = 0"
    by (simp_all add: scheduler_inv_def)
  then show ?thesis
    by (simp add: getStatus_def constructor_def)
qed

text \<open>
  Claim C9. The rotation of a word is a function of its text and the mode: 0 under the
  single mode; \<open>hash text 2 * 90\<close> under the right-angled mode and
  \<open>hash text 12 * 15 - 90\<close> under the multiple mode, where the hash is the one that the
  specification words (\<open>hash_spec\<close>) on the character codes of the serialized text; and
  two words with the same text get the same rotation under the same mode.
\<close>

theorem rotation_is_hash_of_text:
  "ORIENTATIONS Single tg = Some 0 \<and>
   (tag_text tg = Some str \<longrightarrow>
      ORIENTATIONS RightAngled tg = Some (hash_spec (charCodes (JSON_stringify str)) 2 * 90) \<and>
      ORIENTATIONS Multiple tg = Some (hash_spec (charCodes (JSON_stringify str)) 12 * 15 - 90)) \<and>
   (tag_text tg = tag_text tg' \<longrightarrow> ORIENTATIONS mode tg = ORIENTATIONS mode tg')"
proof -
  have "ORIENTATIONS mode tg = ORIENTATIONS mode tg'" if "tag_text tg = tag_text tg'"
    using that by (cases mode) simp_all
  then show ?thesis
    by (simp add: hashWithinRange_spec)
qed

theorem rotation_is_hash_of_text_witness:
  "tag_text (example_tag [102, 111, 111] 5) = Some [102, 111, 111] \<and>
   tag_text (example_tag [102, 111, 111] 5) = tag_text (example_tag [102, 111, 111] 9) \<and>
   ORIENTATIONS Single (example_tag [102, 111, 111] 5) = Some 0 \<and>
   ORIENTATIONS RightAngled (example_tag [102, 111, 111] 5) = Some 0 \<and>
   ORIENTATIONS Multiple (example_tag [102, 111, 111] 5) = Some (- 60) \<and>
   ORIENTATIONS Multiple (example_tag [102, 111, 111] 9) = Some (- 60)"
  using rotation_is_hash_of_text [of "example_tag [102, 111, 111] 5" "[102, 111, 111]"
      "example_tag [102, 111, 111] 9" Multiple]
  by (simp add: example_tag_def hash_spec_def JSON_stringify_def escapeUnit_def
        isHighSurrogate_def isLowSurrogate_def)

text \<open>
  Claim C10. When the pipeline takes a job with no words, the containment flag becomes
  true, so that \<^verbatim>\<open>getStatus\<close> returns the COMPLETE value, the stored width and height of
  the cloud become 0, and no layout pass runs; the test \<open>willBeInside\<close> of a later
  resize then holds for every width and height that an element can have (none is
  negative).
\<close>

theorem empty_job_resets_cloud:
  assumes "pc this = AwaitTimer" and "pendingJob this = Some jb" and "job_words jb = []"
  shows "allInViewBox (timerFired this) \<and>
    cloudWidth (timerFired this) = 0 \<and> cloudHeight (timerFired this) = 0 \<and>
    getStatus (timerFired this) = STATUS_COMPLETE (timerFired this) \<and>
    layoutStarted (timerFired this) = layoutStarted this \<and>
    (0 \<le> newWidth \<and> 0 \<le> newHeight \<longrightarrow> willBeInside newWidth newHeight (timerFired this))"
  using assms
  by (simp add: timerFired_def Let_def pipeline_defs getStatus_def willBeInside_def)


theorem empty_job_resets_cloud_witness:
  "pc (run [SetData []] (constructor 400 300)) = AwaitTimer \<and>
   pendingJob (run [SetData []] (constructor 400 300)) =
     Some \<lparr> refreshLayout = True, job_size = (400, 300), job_words = [] \<rparr> \<and>
   job_words \<lparr> refreshLayout = True, job_size = (400, 300), job_words = [] \<rparr> = [] \<and>
   allInViewBox (timerFired (run [SetData []] (constructor 400 300))) \<and>
   cloudWidth (timerFired (run [SetData []] (constructor 400 300))) = 0 \<and>
   cloudHeight (timerFired (run [SetData []] (constructor 400 300))) = 0 \<and>
   (0::rat) \<le> 0 \<and> (0::rat) \<le> 7 \<and>
   willBeInside 0 7 (timerFired (run [SetData []] (constructor 400 300)))"
  using empty_job_resets_cloud
    [of "run [SetData []] (constructor 400 300)"
        "\<lparr> refreshLayout = True, job_size = (400, 300), job_words = [] \<rparr>" 0 7]
  by (simp add: op_defs example_defs pipeline_defs Let_def)

text \<open>
  Claim C3, as stated, at a concrete input. From the idle state after construction, three
  calls of \<^verbatim>\<open>setData\<close> of which the last passes no words: after the timer has fired the
  class is idle again, one \<^verbatim>\<open>renderComplete\<close> was emitted, and no layout pass has run.
\<close>

theorem three_setData_counterexample:
  "pc (constructor 400 300) = Idle \<and>
   layoutStarted (run [SetData [example_tag [102, 111, 111] 5],
        SetData [example_tag [98, 97, 114] 7], SetData [], TimerFired]
        (constructor 400 300)) = [] \<and>
   emitted (run [SetData [example_tag [102, 111, 111] 5],
        SetData [example_tag [98, 97, 114] 7], SetData [], TimerFired]
        (constructor 400 300)) = [RenderComplete] \<and>
   pc (run [SetData [example_tag [102, 111, 111] 5],
        SetData [example_tag [98, 97, 114] 7], SetData [], TimerFired]
        (constructor 400 300)) = Idle"
  by (simp add: op_defs example_defs pipeline_defs Let_def)

text \<open>
  Claim C3, amended. From an idle state, after three calls of \<^verbatim>\<open>setData\<close> with the word
  sets \<open>A\<close>, \<open>B\<close> and \<open>C\<close> in one tick, three answers of the page bring the class back
  to idle. In all, one \<^verbatim>\<open>renderComplete\<close> is emitted and at most one layout pass runs:
  one, on the job of \<open>C\<close>, when \<open>C\<close> is not empty and the stored width and height are
  positive, and none otherwise. The completed job is the job of \<open>C\<close>; no job of
  \<open>A\<close> or \<open>B\<close> is started.
\<close>

theorem three_setData_one_cycle:
  assumes "pc this = Idle" and "\<not> isJobRunning this"
  shows "\<exists>s'. settle place 3 (run [SetData A, SetData B, SetData C] this) = Some s' \<and>
     pc s' = Idle \<and> pendingJob s' = None \<and>
     emitted s' = emitted this @ [RenderComplete] \<and>
     layoutStarted s' = layoutStarted this @
       (if C \<noteq> [] \<and> 0 < fst (size_wh this) \<and> 0 < snd (size_wh this)
        then [\<lparr> refreshLayout = True, job_size = size_wh this, job_words = C \<rparr>] else []) \<and>
     completedJob s' = Some \<lparr> refreshLayout = True, job_size = size_wh this,
       job_words = (if C \<noteq> [] \<and> 0 < fst (size_wh this) \<and> 0 < snd (size_wh this)
                    then place \<lparr> refreshLayout = True, job_size = size_wh this, job_words = C \<rparr>
                    else C) \<rparr>"
proof -
  note st = three_setData_state [OF assms, of A B C]
  from assms have flags: "\<not> setTimeoutId this" "layoutIsUpdating this \<noteq> Some True"
    "\<not> DOMisUpdating this"
    by (simp_all add: isJobRunning_def)
  show ?thesis
  proof (cases "C = []")
    case True
    with flags show ?thesis
      unfolding st
      by (simp add: numeral_3_eq_3 nextInternal_def timerFired_def pipeline_defs Let_def)
  next
    case False
    show ?thesis
    proof (cases "0 < fst (size_wh this) \<and> 0 < snd (size_wh this)")
      case True
      with False flags show ?thesis
        unfolding st
        by (simp add: numeral_3_eq_3 nextInternal_def timerFired_def layoutEnded_def
              transitionsEnded_def pipeline_defs Let_def)
    next
      case False
      with \<open>C \<noteq> []\<close> flags show ?thesis
        unfolding st
        by (auto simp: numeral_3_eq_3 nextInternal_def timerFired_def layoutEnded_def
              transitionsEnded_def pipeline_defs Let_def not_less)
    qed
  qed
qed

theorem three_setData_one_cycle_witness:
  "pc (constructor 400 300) = Idle \<and> \<not> isJobRunning (constructor 400 300) \<and>
   settle job_words 3
     (run [SetData [example_tag [102, 111, 111] 5], SetData [example_tag [98, 97, 114] 7],
           SetData [example_tag [98, 97, 122] 9]] (constructor 400 300)) =
   Some (run [SetData [example_tag [102, 111, 111] 5], SetData [example_tag [98, 97, 114] 7],
           SetData [example_tag [98, 97, 122] 9], TimerFired,
           LayoutEnded [example_tag [98, 97, 122] 9], TransitionsEnded] (constructor 400 300)) \<and>
   layoutStarted (run [SetData [example_tag [102, 111, 111] 5],
           SetData [example_tag [98, 97, 114] 7],
           SetData [example_tag [98, 97, 122] 9], TimerFired,
           LayoutEnded [example_tag [98, 97, 122] 9], TransitionsEnded] (constructor 400 300)) =
     [\<lparr> refreshLayout = True, job_size = (400, 300),
        job_words = [example_tag [98, 97, 122] 9] \<rparr>] \<and>
   emitted (run [SetData [example_tag [102, 111, 111] 5],
           SetData [example_tag [98, 97, 114] 7],
           SetData [example_tag [98, 97, 122] 9], TimerFired,
           LayoutEnded [example_tag [98, 97, 122] 9], TransitionsEnded] (constructor 400 300)) =
     [RenderComplete]"
  using three_setData_one_cycle
    [where this = "constructor 400 300" and place = job_words
       and A = "[example_tag [102, 111, 111] 5]" and B = "[example_tag [98, 97, 114] 7]"
       and C = "[example_tag [98, 97, 122] 9]"]
  by (simp add: op_defs example_defs pipeline_defs Let_def numeral_3_eq_3 nextInternal_def)

text \<open>
  Claim C4, as stated, at a concrete input. A first job has completed with the cloud inside
  the viewport; \<^verbatim>\<open>setData\<close> has then submitted a second job, which is waiting for the
  timer, and the element has grown. The cloud fits the old and the new viewport and the
  containment flag is set, yet the job that \<^verbatim>\<open>resize\<close> submits refreshes the layout.
\<close>

theorem resize_while_busy_counterexample:
  "wasInside (run [SetData [example_tag [102, 111, 111] 5], TimerFired,
               LayoutEnded [placed_tag [102, 111, 111] 5 3 (- 4)],
               SceneRendered \<lparr> bb_x = 150, bb_y = 120, bb_width = 100, bb_height = 50 \<rparr>,
               TransitionsEnded, SetData [example_tag [98, 97, 114] 7],
               ElementResized 500 500] (constructor 400 300)) \<and>
   willBeInside 500 500 (run [SetData [example_tag [102, 111, 111] 5], TimerFired,
               LayoutEnded [placed_tag [102, 111, 111] 5 3 (- 4)],
               SceneRendered \<lparr> bb_x = 150, bb_y = 120, bb_width = 100, bb_height = 50 \<rparr>,
               TransitionsEnded, SetData [example_tag [98, 97, 114] 7],
               ElementResized 500 500] (constructor 400 300)) \<and>
   allInViewBox (run [SetData [example_tag [102, 111, 111] 5], TimerFired,
               LayoutEnded [placed_tag [102, 111, 111] 5 3 (- 4)],
               SceneRendered \<lparr> bb_x = 150, bb_y = 120, bb_width = 100, bb_height = 50 \<rparr>,
               TransitionsEnded, SetData [example_tag [98, 97, 114] 7],
               ElementResized 500 500] (constructor 400 300)) \<and>
   pendingJob (run [SetData [example_tag [102, 111, 111] 5], TimerFired,
               LayoutEnded [placed_tag [102, 111, 111] 5 3 (- 4)],
               SceneRendered \<lparr> bb_x = 150, bb_y = 120, bb_width = 100, bb_height = 50 \<rparr>,
               TransitionsEnded, SetData [example_tag [98, 97, 114] 7],
               ElementResized 500 500, Resize] (constructor 400 300)) =
     Some \<lparr> refreshLayout = True, job_size = (500, 500),
            job_words = [example_tag [98, 97, 114] 7] \<rparr>"
  by (simp add: op_defs example_defs pipeline_defs Let_def wasInside_def willBeInside_def
        placed_tag_def)

text \<open>
  Claim C4, amended. When there are words and \<^verbatim>\<open>resize\<close> finds a size other than the
  stored one, the job it submits reuses the layout exactly when the cloud fitted the old
  and fits the new viewport, the containment flag is set, no job is running and there is
  a completed job: that job does not refresh the layout and its words are the copies of
  the completed words, with the same x, y, rotation, size and display text. In every other
  case the submitted job refreshes the layout on the current words.
\<close>

theorem resize_reuses_layout_only_when_idle:
  assumes "words this = Some ws"
    and "offsetWidth this \<noteq> fst (size_wh this) \<or> offsetHeight this \<noteq> snd (size_wh this)"
  shows "pendingJob (resize this) =
      (case completedJob this of
         Some cj \<Rightarrow>
           if wasInside this \<and> willBeInside (offsetWidth this) (offsetHeight this) this \<and>
              allInViewBox this \<and> \<not> isJobRunning this
           then Some \<lparr> refreshLayout = False, job_size = (offsetWidth this, offsetHeight this),
                       job_words = map preserveTag (job_words cj) \<rparr>
           else Some \<lparr> refreshLayout = True, job_size = (offsetWidth this, offsetHeight this),
                       job_words = ws \<rparr>
       | None \<Rightarrow> Some \<lparr> refreshLayout = True, job_size = (offsetWidth this, offsetHeight this),
                       job_words = ws \<rparr>) \<and>
    map tag_x (map preserveTag tgs) = map tag_x tgs \<and>
    map tag_y (map preserveTag tgs) = map tag_y tgs \<and>
    map tag_rotate (map preserveTag tgs) = map tag_rotate tgs \<and>
    map tag_size (map preserveTag tgs) = map tag_size tgs \<and>
    map tag_displayText (map preserveTag tgs) = map tag_displayText tgs"
proof -
  have "pendingJob (resize this) =
      (case completedJob this of
         Some cj \<Rightarrow>
           if wasInside this \<and> willBeInside (offsetWidth this) (offsetHeight this) this \<and>
              allInViewBox this \<and> \<not> isJobRunning this
           then Some \<lparr> refreshLayout = False, job_size = (offsetWidth this, offsetHeight this),
                       job_words = map preserveTag (job_words cj) \<rparr>
           else Some \<lparr> refreshLayout = True, job_size = (offsetWidth this, offsetHeight this),
                       job_words = ws \<rparr>
       | None \<Rightarrow> Some \<lparr> refreshLayout = True, job_size = (offsetWidth this, offsetHeight this),
                       job_words = ws \<rparr>)"
    using assms
    by (auto simp: resize_def invalidate_def Let_def makeNewJob_def makeJobPreservingLayout_def
          processPendingJob_def pickPendingJob_def isJobRunning_def
          split: option.splits)
  then show ?thesis
    by (simp add: preserveTag_placement comp_def)
qed

theorem resize_reuses_layout_only_when_idle_witness:
  "words (run [SetData [example_tag [102, 111, 111] 5], TimerFired,
               LayoutEnded [placed_tag [102, 111, 111] 5 3 (- 4)],
               SceneRendered \<lparr> bb_x = 150, bb_y = 120, bb_width = 100, bb_height = 50 \<rparr>,
               TransitionsEnded, ElementResized 500 500] (constructor 400 300)) =
     Some [example_tag [102, 111, 111] 5] \<and>
   offsetWidth (run [SetData [example_tag [102, 111, 111] 5], TimerFired,
               LayoutEnded [placed_tag [102, 111, 111] 5 3 (- 4)],
               SceneRendered \<lparr> bb_x = 150, bb_y = 120, bb_width = 100, bb_height = 50 \<rparr>,
               TransitionsEnded, ElementResized 500 500] (constructor 400 300)) \<noteq>
     fst (size_wh (run [SetData [example_tag [102, 111, 111] 5], TimerFired,
               LayoutEnded [placed_tag [102, 111, 111] 5 3 (- 4)],
               SceneRendered \<lparr> bb_x = 150, bb_y = 120, bb_width = 100, bb_height = 50 \<rparr>,
               TransitionsEnded, ElementResized 500 500] (constructor 400 300))) \<and>
   pendingJob (resize (run [SetData [example_tag [102, 111, 111] 5], TimerFired,
               LayoutEnded [placed_tag [102, 111, 111] 5 3 (- 4)],
               SceneRendered \<lparr> bb_x = 150, bb_y = 120, bb_width = 100, bb_height = 50 \<rparr>,
               TransitionsEnded, ElementResized 500 500] (constructor 400 300))) =
     Some \<lparr> refreshLayout = False, job_size = (500, 500),
            job_words = [preserveTag (placed_tag [102, 111, 111] 5 3 (- 4))] \<rparr> \<and>
   tag_x (preserveTag (placed_tag [102, 111, 111] 5 3 (- 4))) = Some 3 \<and>
   tag_y (preserveTag (placed_tag [102, 111, 111] 5 3 (- 4))) = Some (- 4)"
  using resize_reuses_layout_only_when_idle
    [of "run [SetData [example_tag [102, 111, 111] 5], TimerFired,
               LayoutEnded [placed_tag [102, 111, 111] 5 3 (- 4)],
               SceneRendered \<lparr> bb_x = 150, bb_y = 120, bb_width = 100, bb_height = 50 \<rparr>,
               TransitionsEnded, ElementResized 500 500] (constructor 400 300)"
        "[example_tag [102, 111, 111] 5]" "[placed_tag [102, 111, 111] 5 3 (- 4)]"]
  by (simp add: op_defs example_defs pipeline_defs Let_def wasInside_def willBeInside_def
        placed_tag_def preserveTag_def)


text \<open>
  Claim C2, as stated, at a concrete input. After a first job has completed, the slot
  holds that job; a call of \<^verbatim>\<open>setData\<close> then starts the pipeline, and the slot is empty
  while the new job is still pending, before anything of it is reconciled.
\<close>

theorem completedJob_cleared_counterexample:
  "completedJob (run [SetData [example_tag [102, 111, 111] 5], TimerFired,
            LayoutEnded [placed_tag [102, 111, 111] 5 3 (- 4)], TransitionsEnded]
            (constructor 400 300)) =
     Some \<lparr> refreshLayout = True, job_size = (400, 300),
            job_words = [placed_tag [102, 111, 111] 5 3 (- 4)] \<rparr> \<and>
   completedJob (run [SetData [example_tag [102, 111, 111] 5], TimerFired,
            LayoutEnded [placed_tag [102, 111, 111] 5 3 (- 4)], TransitionsEnded,
            SetData [example_tag [98, 97, 114] 7]] (constructor 400 300)) = None \<and>
   pc (run [SetData [example_tag [102, 111, 111] 5], TimerFired,
            LayoutEnded [placed_tag [102, 111, 111] 5 3 (- 4)], TransitionsEnded,
            SetData [example_tag [98, 97, 114] 7]] (constructor 400 300)) = AwaitTimer"
  by (simp add: op_defs example_defs pipeline_defs Let_def placed_tag_def)

text \<open>
  Claim C2, amended. In every state that the class reaches, the slot of the completed job
  is empty whenever an instance of the pipeline is suspended or a busy flag is set; and an
  event that changes the slot either empties it or stores in it the whole job that the
  pipeline was processing when the event resumed it (\<open>inFlight\<close>), in which case the
  class is idle after the event, nothing is pending, and the event emitted one
  \<^verbatim>\<open>renderComplete\<close>.
\<close>

theorem completedJob_cleared_while_busy:
  "(pc (run es (constructor w h)) \<noteq> Idle \<or> isJobRunning (run es (constructor w h)) \<longrightarrow>
      completedJob (run es (constructor w h)) = None) \<and>
   (completedJob (run (es @ [e]) (constructor w h)) \<noteq> completedJob (run es (constructor w h)) \<longrightarrow>
      completedJob (run (es @ [e]) (constructor w h)) = None \<or>
      (completedJob (run (es @ [e]) (constructor w h)) = inFlight e (run es (constructor w h)) \<and>
       pc (run (es @ [e]) (constructor w h)) = Idle \<and>
       \<not> isJobRunning (run (es @ [e]) (constructor w h)) \<and>
       pendingJob (run (es @ [e]) (constructor w h)) = None \<and>
       emitted (run (es @ [e]) (constructor w h)) =
         emitted (run es (constructor w h)) @ [RenderComplete]))"
proof -
  have a: "completedJob (run es (constructor w h)) = None"
    if "pc (run es (constructor w h)) \<noteq> Idle \<or> isJobRunning (run es (constructor w h))"
    using that inv_busy_completedJob [OF inv_reachable] by blast
  have b: "completedJob (run (es @ [e]) (constructor w h)) = inFlight e (run es (constructor w h)) \<and>
       pc (run (es @ [e]) (constructor w h)) = Idle \<and>
       \<not> isJobRunning (run (es @ [e]) (constructor w h)) \<and>
       pendingJob (run (es @ [e]) (constructor w h)) = None \<and>
       emitted (run (es @ [e]) (constructor w h)) =
         emitted (run es (constructor w h)) @ [RenderComplete]"
    if ne: "completedJob (run (es @ [e]) (constructor w h)) \<noteq> completedJob (run es (constructor w h))"
      and nn: "completedJob (run (es @ [e]) (constructor w h)) \<noteq> None"
  proof -
    have "completedJob (step e (run es (constructor w h))) = inFlight e (run es (constructor w h)) \<and>
        emitted (step e (run es (constructor w h))) =
        emitted (run es (constructor w h)) @ [RenderComplete]"
      using step_completedJob [of e "run es (constructor w h)"] ne nn
      by (auto simp: run_snoc)
    with inv_completed_idle [OF inv_reachable nn] show ?thesis
      by (simp add: run_snoc)
  qed
  from a b show ?thesis by blast
qed

theorem completedJob_cleared_while_busy_witness:
  "pc (run [SetData [example_tag [102, 111, 111] 5, example_tag [98, 97, 114] 7], TimerFired,
            LayoutEnded [placed_tag [102, 111, 111] 5 3 (- 4), placed_tag [98, 97, 114] 7 20 9]]
         (constructor 400 300)) \<noteq> Idle \<and>
   completedJob (run [SetData [example_tag [102, 111, 111] 5, example_tag [98, 97, 114] 7],
            TimerFired,
            LayoutEnded [placed_tag [102, 111, 111] 5 3 (- 4), placed_tag [98, 97, 114] 7 20 9]]
         (constructor 400 300)) = None \<and>
   inFlight TransitionsEnded
     (run [SetData [example_tag [102, 111, 111] 5, example_tag [98, 97, 114] 7], TimerFired,
            LayoutEnded [placed_tag [102, 111, 111] 5 3 (- 4), placed_tag [98, 97, 114] 7 20 9]]
         (constructor 400 300)) =
     Some \<lparr> refreshLayout = True, job_size = (400, 300),
            job_words = [placed_tag [102, 111, 111] 5 3 (- 4), placed_tag [98, 97, 114] 7 20 9] \<rparr> \<and>
   completedJob (run [SetData [example_tag [102, 111, 111] 5, example_tag [98, 97, 114] 7],
            TimerFired,
            LayoutEnded [placed_tag [102, 111, 111] 5 3 (- 4), placed_tag [98, 97, 114] 7 20 9],
            TransitionsEnded] (constructor 400 300)) =
     Some \<lparr> refreshLayout = True, job_size = (400, 300),
            job_words = [placed_tag [102, 111, 111] 5 3 (- 4), placed_tag [98, 97, 114] 7 20 9] \<rparr> \<and>
   emitted (run [SetData [example_tag [102, 111, 111] 5, example_tag [98, 97, 114] 7],
            TimerFired,
            LayoutEnded [placed_tag [102, 111, 111] 5 3 (- 4), placed_tag [98, 97, 114] 7 20 9],
            TransitionsEnded] (constructor 400 300)) = [RenderComplete]"
  using completedJob_cleared_while_busy
    [of "[SetData [example_tag [102, 111, 111] 5, example_tag [98, 97, 114] 7], TimerFired,
          LayoutEnded [placed_tag [102, 111, 111] 5 3 (- 4), placed_tag [98, 97, 114] 7 20 9]]"
        400 300 TransitionsEnded]
  by (simp add: op_defs example_defs pipeline_defs Let_def placed_tag_def inFlight_def)

text \<open>
  Claim C6, as stated, at a concrete input. A payload without the property
  \<^verbatim>\<open>minFontSize\<close>, with the maximum 18: reading the absent property gives
  \<^verbatim>\<open>undefined\<close>, \<^verbatim>\<open>Math.min\<close> and \<^verbatim>\<open>Math.max\<close> return NaN, both stored sizes are
  NaN, and the comparison of the stored minimum with the stored maximum is false.
\<close>

theorem setOptions_absent_size_counterexample:
  "minFontSize (setOptions
      \<lparr> opt_orientation = Single, opt_minFontSize = None, opt_maxFontSize = Some (Number 18),
        opt_scale = Linear,
        opt_keys = [Key_orientation, Key_minFontSize, Key_maxFontSize, Key_scale] \<rparr>
      (constructor 400 300)) = NaN \<and>
   maxFontSize (setOptions
      \<lparr> opt_orientation = Single, opt_minFontSize = None, opt_maxFontSize = Some (Number 18),
        opt_scale = Linear,
        opt_keys = [Key_orientation, Key_minFontSize, Key_maxFontSize, Key_scale] \<rparr>
      (constructor 400 300)) = NaN \<and>
   \<not> js_le
     (minFontSize (setOptions
        \<lparr> opt_orientation = Single, opt_minFontSize = None, opt_maxFontSize = Some (Number 18),
          opt_scale = Linear,
          opt_keys = [Key_orientation, Key_minFontSize, Key_maxFontSize, Key_scale] \<rparr>
        (constructor 400 300)))
     (maxFontSize (setOptions
        \<lparr> opt_orientation = Single, opt_minFontSize = None, opt_maxFontSize = Some (Number 18),
          opt_scale = Linear,
          opt_keys = [Key_orientation, Key_minFontSize, Key_maxFontSize, Key_scale] \<rparr>
        (constructor 400 300)))"
  by (simp add: setOptions_def invalidate_frame constructor_def toNumber_def Math_min_def
        Math_max_def)

text \<open>
  Claim C6, amended. For a payload whose two font sizes are finite numbers, in any state
  that the class reaches, after \<^verbatim>\<open>setOptions\<close> the stored minimum is the lesser and the
  stored maximum the greater of the two, so the stored minimum is at most the stored
  maximum; this holds whether the payload is applied or found equal to the stored
  serialization.
\<close>

theorem setOptions_font_sizes_ordered:
  assumes "opt_minFontSize opts = Some (Number a)" and "opt_maxFontSize opts = Some (Number b)"
  shows "minFontSize (setOptions opts (run es (constructor w h))) = Number (min a b) \<and>
    maxFontSize (setOptions opts (run es (constructor w h))) = Number (max a b) \<and>
    js_le (minFontSize (setOptions opts (run es (constructor w h))))
          (maxFontSize (setOptions opts (run es (constructor w h))))"
proof -
  let ?s = "run es (constructor w h)"
  have ser: "sizesOfText (JSON_stringify_options opts) = Some (Number (min a b), Number (max a b))"
    using assms
    by (simp add: sizesOfText_def map_of_stringify opt_member_def number_json_def)
  have "minFontSize (setOptions opts ?s) = Number (min a b) \<and>
      maxFontSize (setOptions opts ?s) = Number (max a b)"
  proof (cases "Some (JSON_stringify_options opts) = optionsAsString ?s")
    case True
    have "sizesConsistent (optionsAsString ?s) (minFontSize ?s) (maxFontSize ?s)"
      using inv_reachable [of es w h] by (simp add: scheduler_inv_def)
    with True [symmetric] ser have "(minFontSize ?s, maxFontSize ?s) = (Number (min a b), Number (max a b))"
      by (simp add: sizesConsistent_def)
    with True show ?thesis
      by (simp add: setOptions_def)
  next
    case False
    with assms show ?thesis
      by (simp add: setOptions_def invalidate_frame toNumber_def Math_min_max_Number)
  qed
  then show ?thesis by simp
qed

theorem setOptions_font_sizes_ordered_witness:
  "opt_minFontSize (example_options 40 18 [Key_orientation, Key_minFontSize, Key_maxFontSize, Key_scale]) =
     Some (Number 40) \<and>
   opt_maxFontSize (example_options 40 18 [Key_orientation, Key_minFontSize, Key_maxFontSize, Key_scale]) =
     Some (Number 18) \<and>
   minFontSize (setOptions
      (example_options 40 18 [Key_orientation, Key_minFontSize, Key_maxFontSize, Key_scale])
      (run [SetData [example_tag [102, 111, 111] 5]] (constructor 400 300))) = Number 18 \<and>
   maxFontSize (setOptions
      (example_options 40 18 [Key_orientation, Key_minFontSize, Key_maxFontSize, Key_scale])
      (run [SetData [example_tag [102, 111, 111] 5]] (constructor 400 300))) = Number 40"
  using setOptions_font_sizes_ordered
    [of "example_options 40 18 [Key_orientation, Key_minFontSize, Key_maxFontSize, Key_scale]"
        40 18 "[SetData [example_tag [102, 111, 111] 5]]" 400 300]
  by (simp add: example_options_def)


text \<open>
  Claim C7, as stated, at a concrete input. Two payloads with the same value under every
  key that list their keys in different orders: after the first is applied and its layout
  cycle has completed, \<^verbatim>\<open>setOptions\<close> with the second changes the stored serialization
  and starts a second layout pass.
\<close>

theorem setOptions_key_order_counterexample:
  "structurallyEqual
     (example_options 40 18 [Key_orientation, Key_minFontSize, Key_maxFontSize, Key_scale])
     (example_options 40 18 [Key_minFontSize, Key_orientation, Key_maxFontSize, Key_scale]) \<and>
   layoutStarted (run [SetData [example_tag [102, 111, 111] 5],
        SetOptions (example_options 40 18 [Key_orientation, Key_minFontSize, Key_maxFontSize, Key_scale]),
        TimerFired, LayoutEnded [example_tag [102, 111, 111] 5], TransitionsEnded]
       (constructor 400 300)) =
     [\<lparr> refreshLayout = True, job_size = (400, 300), job_words = [example_tag [102, 111, 111] 5] \<rparr>] \<and>
   layoutStarted (run [SetData [example_tag [102, 111, 111] 5],
        SetOptions (example_options 40 18 [Key_orientation, Key_minFontSize, Key_maxFontSize, Key_scale]),
        TimerFired, LayoutEnded [example_tag [102, 111, 111] 5], TransitionsEnded,
        SetOptions (example_options 40 18 [Key_minFontSize, Key_orientation, Key_maxFontSize, Key_scale]),
        TimerFired]
       (constructor 400 300)) =
     [\<lparr> refreshLayout = True, job_size = (400, 300), job_words = [example_tag [102, 111, 111] 5] \<rparr>,
      \<lparr> refreshLayout = True, job_size = (400, 300), job_words = [example_tag [102, 111, 111] 5] \<rparr>] \<and>
   optionsAsString (run [SetData [example_tag [102, 111, 111] 5],
        SetOptions (example_options 40 18 [Key_orientation, Key_minFontSize, Key_maxFontSize, Key_scale]),
        TimerFired, LayoutEnded [example_tag [102, 111, 111] 5], TransitionsEnded,
        SetOptions (example_options 40 18 [Key_minFontSize, Key_orientation, Key_maxFontSize, Key_scale])]
       (constructor 400 300)) \<noteq>
   optionsAsString (run [SetData [example_tag [102, 111, 111] 5],
        SetOptions (example_options 40 18 [Key_orientation, Key_minFontSize, Key_maxFontSize, Key_scale]),
        TimerFired, LayoutEnded [example_tag [102, 111, 111] 5], TransitionsEnded]
       (constructor 400 300))"
  by (simp add: op_defs example_defs pipeline_defs Let_def example_options_def
        structurallyEqual_def JSON_stringify_options_def opt_member_def propertyOrder_examples
        number_json_def toNumber_def Math_min_def Math_max_def)

text \<open>
  Claim C7, amended. \<^verbatim>\<open>setOptions\<close> with a payload whose serialization is the stored one
  changes nothing; in particular a second call with a payload that has the same value
  under every key and lists its keys in the same order leaves the state as the first call
  left it. A payload that serializes differently is applied and, when there are words,
  submits a new job that refreshes the layout; a payload with both sizes present that has
  the same value under every key but lists its keys in another order serializes
  differently.
\<close>

theorem setOptions_same_serialization_noop:
  "(optionsAsString this = Some (JSON_stringify_options opts) \<longrightarrow> setOptions opts this = this) \<and>
   (structurallyEqual a b \<and> propertyOrder a = propertyOrder b \<longrightarrow>
      setOptions b (setOptions a this) = setOptions a this) \<and>
   (JSON_stringify_options b' \<noteq> JSON_stringify_options a' \<and> words this' = Some ws \<longrightarrow>
      optionsAsString (setOptions b' (setOptions a' this')) = Some (JSON_stringify_options b') \<and>
      optionsAsString (setOptions b' (setOptions a' this')) \<noteq>
        optionsAsString (setOptions a' this') \<and>
      pendingJob (setOptions b' (setOptions a' this')) =
        Some \<lparr> refreshLayout = True, job_size = size_wh this', job_words = ws \<rparr>) \<and>
   (structurallyEqual a' b' \<and> propertyOrder a' \<noteq> propertyOrder b' \<and>
    opt_minFontSize a' \<noteq> None \<and> opt_maxFontSize a' \<noteq> None \<longrightarrow>
      JSON_stringify_options b' \<noteq> JSON_stringify_options a')"
proof -
  have same: "setOptions b (setOptions a this) = setOptions a this"
    if "structurallyEqual a b" "propertyOrder a = propertyOrder b"
  proof -
    have "optionsAsString (setOptions a this) = Some (JSON_stringify_options b)"
      using that by (simp add: setOptions_optionsAsString stringify_structurallyEqual)
    then show ?thesis
      by (simp add: setOptions_def [of b])
  qed
  have other: "optionsAsString (setOptions b' (setOptions a' this')) = Some (JSON_stringify_options b') \<and>
      optionsAsString (setOptions b' (setOptions a' this')) \<noteq>
        optionsAsString (setOptions a' this') \<and>
      pendingJob (setOptions b' (setOptions a' this')) =
        Some \<lparr> refreshLayout = True, job_size = size_wh this', job_words = ws \<rparr>"
    if ne: "JSON_stringify_options b' \<noteq> JSON_stringify_options a'" and w: "words this' = Some ws"
  proof -
    have stored: "optionsAsString (setOptions a' this') = Some (JSON_stringify_options a')"
      by (rule setOptions_optionsAsString)
    have "words (setOptions a' this') = Some ws" "size_wh (setOptions a' this') = size_wh this'"
      using w by (simp_all add: setOptions_frame)
    then have "pendingJob (setOptions b' (setOptions a' this')) =
        Some \<lparr> refreshLayout = True, job_size = size_wh this', job_words = ws \<rparr>"
      using ne stored
      by (simp add: setOptions_def [of b'] invalidate_pendingJob makeNewJob_def)
    with ne stored show ?thesis
      by (simp add: setOptions_optionsAsString)
  qed
  have order: "JSON_stringify_options b' \<noteq> JSON_stringify_options a'"
    if se: "structurallyEqual a' b'" and "propertyOrder a' \<noteq> propertyOrder b'"
      and "opt_minFontSize a' \<noteq> None" "opt_maxFontSize a' \<noteq> None"
  proof
    assume eq: "JSON_stringify_options b' = JSON_stringify_options a'"
    from se that(3,4) have "opt_minFontSize b' \<noteq> None" "opt_maxFontSize b' \<noteq> None"
      by (simp_all add: structurallyEqual_def)
    then have "map fst (JSON_stringify_options b') = propertyOrder b'"
      by (rule stringify_keys)
    moreover have "map fst (JSON_stringify_options a') = propertyOrder a'"
      using that(3,4) by (rule stringify_keys)
    ultimately show False
      using eq that(2) by simp
  qed
  have noop: "setOptions opts this = this"
    if "optionsAsString this = Some (JSON_stringify_options opts)"
    using that by (simp add: setOptions_def)
  from noop same other order show ?thesis
    by blast
qed

theorem setOptions_same_serialization_noop_witness:
  "optionsAsString (run [SetData [example_tag [102, 111, 111] 5],
        SetOptions (example_options 40 18 [Key_orientation, Key_minFontSize, Key_maxFontSize, Key_scale]),
        TimerFired, LayoutEnded [example_tag [102, 111, 111] 5], TransitionsEnded]
       (constructor 400 300)) =
     Some (JSON_stringify_options (example_options 40 18 [Key_orientation, Key_minFontSize, Key_maxFontSize, Key_scale])) \<and>
   words (run [SetData [example_tag [102, 111, 111] 5],
        SetOptions (example_options 40 18 [Key_orientation, Key_minFontSize, Key_maxFontSize, Key_scale]),
        TimerFired, LayoutEnded [example_tag [102, 111, 111] 5], TransitionsEnded]
       (constructor 400 300)) = Some [example_tag [102, 111, 111] 5] \<and>
   setOptions (example_options 40 18 [Key_orientation, Key_minFontSize, Key_maxFontSize, Key_scale])
     (run [SetData [example_tag [102, 111, 111] 5],
        SetOptions (example_options 40 18 [Key_orientation, Key_minFontSize, Key_maxFontSize, Key_scale]),
        TimerFired, LayoutEnded [example_tag [102, 111, 111] 5], TransitionsEnded]
       (constructor 400 300)) =
   run [SetData [example_tag [102, 111, 111] 5],
        SetOptions (example_options 40 18 [Key_orientation, Key_minFontSize, Key_maxFontSize, Key_scale]),
        TimerFired, LayoutEnded [example_tag [102, 111, 111] 5], TransitionsEnded]
       (constructor 400 300) \<and>
   pc (run [SetData [example_tag [102, 111, 111] 5],
        SetOptions (example_options 40 18 [Key_orientation, Key_minFontSize, Key_maxFontSize, Key_scale]),
        TimerFired, LayoutEnded [example_tag [102, 111, 111] 5], TransitionsEnded,
        SetOptions (example_options 40 18 [Key_orientation, Key_minFontSize, Key_maxFontSize, Key_scale])]
       (constructor 400 300)) = Idle \<and>
   layoutStarted (run [SetData [example_tag [102, 111, 111] 5],
        SetOptions (example_options 40 18 [Key_orientation, Key_minFontSize, Key_maxFontSize, Key_scale]),
        TimerFired, LayoutEnded [example_tag [102, 111, 111] 5], TransitionsEnded,
        SetOptions (example_options 40 18 [Key_orientation, Key_minFontSize, Key_maxFontSize, Key_scale])]
       (constructor 400 300)) =
     [\<lparr> refreshLayout = True, job_size = (400, 300), job_words = [example_tag [102, 111, 111] 5] \<rparr>] \<and>
   structurallyEqual (example_options 40 18 [Key_orientation, Key_minFontSize, Key_maxFontSize, Key_scale])
     (example_options 40 18 [Key_minFontSize, Key_orientation, Key_maxFontSize, Key_scale]) \<and>
   propertyOrder (example_options 40 18 [Key_orientation, Key_minFontSize, Key_maxFontSize, Key_scale]) \<noteq>
     propertyOrder (example_options 40 18 [Key_minFontSize, Key_orientation, Key_maxFontSize, Key_scale]) \<and>
   JSON_stringify_options (example_options 40 18 [Key_minFontSize, Key_orientation, Key_maxFontSize, Key_scale]) \<noteq>
     JSON_stringify_options (example_options 40 18 [Key_orientation, Key_minFontSize, Key_maxFontSize, Key_scale]) \<and>
   pendingJob (setOptions (example_options 40 18 [Key_minFontSize, Key_orientation, Key_maxFontSize, Key_scale])
     (run [SetData [example_tag [102, 111, 111] 5],
        SetOptions (example_options 40 18 [Key_orientation, Key_minFontSize, Key_maxFontSize, Key_scale]),
        TimerFired, LayoutEnded [example_tag [102, 111, 111] 5], TransitionsEnded]
       (constructor 400 300))) =
     Some \<lparr> refreshLayout = True, job_size = (400, 300), job_words = [example_tag [102, 111, 111] 5] \<rparr>"
  using setOptions_same_serialization_noop
    [where this = "run [SetData [example_tag [102, 111, 111] 5],
        SetOptions (example_options 40 18 [Key_orientation, Key_minFontSize, Key_maxFontSize, Key_scale]),
        TimerFired, LayoutEnded [example_tag [102, 111, 111] 5], TransitionsEnded]
       (constructor 400 300)"
       and opts = "example_options 40 18 [Key_orientation, Key_minFontSize, Key_maxFontSize, Key_scale]"
       and a = "example_options 40 18 [Key_orientation, Key_minFontSize, Key_maxFontSize, Key_scale]"
       and b = "example_options 40 18 [Key_orientation, Key_minFontSize, Key_maxFontSize, Key_scale]"
       and this' = "run [SetData [example_tag [102, 111, 111] 5],
        SetOptions (example_options 40 18 [Key_orientation, Key_minFontSize, Key_maxFontSize, Key_scale]),
        TimerFired, LayoutEnded [example_tag [102, 111, 111] 5], TransitionsEnded]
       (constructor 400 300)"
       and a' = "example_options 40 18 [Key_orientation, Key_minFontSize, Key_maxFontSize, Key_scale]"
       and b' = "example_options 40 18 [Key_minFontSize, Key_orientation, Key_maxFontSize, Key_scale]"
       and ws = "[example_tag [102, 111, 111] 5]"]
  by (simp add: op_defs example_defs pipeline_defs Let_def example_options_def
        structurallyEqual_def JSON_stringify_options_def opt_member_def propertyOrder_examples
        number_json_def toNumber_def Math_min_def Math_max_def)




end
